theory Spec2Isabelle
  imports Main "HOL-Library.Word"
begin

section \<open>The container daemon of garden-linux (container\_daemon/daemon.go)\<close>

text \<open>
  The daemon decodes a process specification from a connection, creates four pipes,
  looks the user up, starts the command through a Runner and hands the client ends of
  the pipes back; a goroutine waits for the command and reports its exit status.

  Everything the Go code does to the outside is an effect on an explicit \<open>world\<close>:
  the table of open descriptors, the bytes delivered into each pipe, and the sequence
  of calls made (the trace). The collaborators the daemon only consumes (the JSON
  decoder, \<open>os.Pipe\<close>, \<open>Write\<close>, the user lookup, the Runner, the Listener) are
  parameters: their results are given by the daemon record and by an environment.
\<close>

subsection \<open>Data\<close>

type_synonym byte = "8 word"

text \<open>\<open>garden.ProcessSpec\<close>: the fields \<open>Handle\<close> reads.\<close>

record ProcessSpec =
  Path :: string
  Args :: "string list"
  User :: string

text \<open>The record a user lookup returns (\<open>*user.User\<close>): the fields \<open>Handle\<close> reads.\<close>

record UserRec =
  Uid :: string
  Gid :: string

text \<open>
  \<open>exec.Cmd\<close> as \<open>Handle\<close> prepares it: \<open>exec.Command(name, arg...)\<close> stores the
  name and the argument vector \<open>name # arg\<close> (its search for a bare name in the
  path is left out); \<open>SysProcAttr.Credential\<close> holds two \<open>uint32\<close>; the three
  standard streams are descriptors.
\<close>

record Cmd =
  cmd_Path :: string
  cmd_Args :: "string list"
  cred_Uid :: "32 word"
  cred_Gid :: "32 word"
  Stdin :: nat
  Stdout :: nat
  Stderr :: nat

text \<open>
  The interfaces. A Go \<open>error\<close> is its message, \<open>None\<close> is \<open>nil\<close>. \<open>Wait\<close> returns
  a pair \<open>(byte, error)\<close> as in Go; the task is modelled from the moment \<open>Wait\<close>
  returns. A listener has a state of its own (type \<open>'l\<close>).
\<close>

record Runner =
  Start :: "Cmd \<Rightarrow> string option"
  Wait :: "Cmd \<Rightarrow> byte \<times> string option"

record 'l Listener =
  l_Init :: "'l \<Rightarrow> string option \<times> 'l"
  l_Stop :: "'l \<Rightarrow> string option \<times> 'l"

record 'l ContainerDaemon =
  Listener :: "'l Listener"
  Users :: "string \<Rightarrow> UserRec option \<times> string option"
  Runner :: Runner

text \<open>The errors \<open>Handle\<close> returns, one constructor for each \<open>fmt.Errorf\<close>.\<close>

datatype herror =
  DecodeFailed string
  | PipeFailed string
  | LookupNoUser string
  | LookupFailed string string
  | RunFailed string

fun error_message :: "herror \<Rightarrow> string" where
  "error_message (DecodeFailed e) = ''container_daemon: Decode failed: '' @ e"
| "error_message (PipeFailed e) = ''container_daemon: Failed to create pipe: '' @ e"
| "error_message (LookupNoUser u) = ''container_daemon: failed to lookup user '' @ u"
| "error_message (LookupFailed u e) = ''container_daemon: lookup user '' @ u @ '': '' @ e"
| "error_message (RunFailed e) = ''container_daemon: running command: '' @ e"

subsection \<open>The world: descriptors, pipe contents, calls made\<close>

datatype event =
  EvPipe nat nat
  | EvClose nat
  | EvStart Cmd
  | EvWait Cmd
  | EvWrite nat "byte list"

record world =
  next_fd :: nat
  open_fds :: "nat set"
  pipe_data :: "nat \<Rightarrow> byte list"
  trace :: "event list"

text \<open>
  What the operating system and the rest of the package supply:
  \<open>pipe_err i\<close> is the error of the \<open>i\<close>-th \<open>os.Pipe\<close> call of a \<open>Handle\<close>;
  \<open>write_res fd bs\<close> is \<open>None\<close> when writing \<open>bs\<close> to the open descriptor \<open>fd\<close>
  succeeds and \<open>Some (n, e)\<close> when it fails with error \<open>e\<close> after at most \<open>n\<close> bytes;
  \<open>UnknownExitStatus\<close> is the package constant of that name, which is declared in
  another file of the package.
\<close>

record env =
  pipe_err :: "nat \<Rightarrow> string option"
  write_res :: "nat \<Rightarrow> byte list \<Rightarrow> (nat \<times> string) option"
  UnknownExitStatus :: byte

text \<open>\<open>os.Pipe\<close>: on success two fresh descriptors, the read end and the write end of a
  new, empty pipe; on failure nothing is allocated. The numbers come from a counter:
  all that is used of them is that they are new.\<close>

definition os_Pipe :: "env \<Rightarrow> nat \<Rightarrow> world \<Rightarrow> (string + nat \<times> nat) \<times> world" where
  "os_Pipe e i w =
     (case pipe_err e i of
        Some err \<Rightarrow> (Inl err, w)
      | None \<Rightarrow>
          (let r = next_fd w; wr = Suc (next_fd w)
           in (Inr (r, wr),
               w\<lparr>next_fd := Suc (Suc (next_fd w)),
                 open_fds := insert r (insert wr (open_fds w)),
                 pipe_data := (pipe_data w)(wr := []),
                 trace := trace w @ [EvPipe r wr]\<rparr>)))"

text \<open>\<open>f.Close()\<close> with the error ignored: the descriptor is released; closing a
  descriptor that is not open changes nothing but is still a call.\<close>

definition os_Close :: "nat \<Rightarrow> world \<Rightarrow> world" where
  "os_Close fd w = w\<lparr>open_fds := open_fds w - {fd}, trace := trace w @ [EvClose fd]\<rparr>"

text \<open>\<open>f.Write(bs)\<close>: returns \<open>(n, err)\<close>. On a closed file it fails at once (with
  a message that depends on the Go version); a failed write has delivered fewer bytes
  than it was given; a write that succeeds delivers all. The bytes delivered are
  appended to the pipe, keyed by its write end.\<close>

definition os_Write :: "env \<Rightarrow> nat \<Rightarrow> byte list \<Rightarrow> world \<Rightarrow> (nat \<times> string option) \<times> world" where
  "os_Write e fd bs w =
     (let w' = w\<lparr>trace := trace w @ [EvWrite fd bs]\<rparr>
      in if fd \<in> open_fds w then
           (case write_res e fd bs of
              None \<Rightarrow>
                ((length bs, None), w'\<lparr>pipe_data := (pipe_data w)(fd := pipe_data w fd @ bs)\<rparr>)
            | Some (n, err) \<Rightarrow>
                (let k = min n (length bs - 1)
                 in ((k, Some err),
                     w'\<lparr>pipe_data := (pipe_data w)(fd := pipe_data w fd @ take k bs)\<rparr>)))
         else ((0, Some ''file already closed''), w'))"

subsection \<open>\<open>fmt.Sscanf(s, "%d", &v)\<close> for a \<open>uint32\<close>\<close>

text \<open>
  The scanner reads runes: \<open>decodeRune\<close> is \<open>utf8.DecodeRune\<close>, which yields the rune
  at the head of a byte string and its width, and \<open>(RuneError, 1)\<close> for a byte that
  starts no valid encoding (overlong forms and surrogates are not valid).
\<close>

definition RuneError :: nat where
  "RuneError = 0xFFFD"

definition cont :: "char \<Rightarrow> bool" where
  "cont b = (0x80 \<le> (of_char b :: nat) \<and> (of_char b :: nat) \<le> 0xBF)"

definition between :: "nat \<Rightarrow> char \<Rightarrow> nat \<Rightarrow> bool" where
  "between lo b hi = (lo \<le> of_char b \<and> of_char b \<le> hi)"

fun decodeRune :: "string \<Rightarrow> nat \<times> nat" where
  "decodeRune [] = (RuneError, 0)"
| "decodeRune (b0 # bs) =
     (let x = of_char b0 in
      if x < 0x80 then (x, 1)
      else if 0xC2 \<le> x \<and> x \<le> 0xDF then
        (case bs of
           b1 # _ \<Rightarrow>
             if cont b1 then ((x - 0xC0) * 64 + (of_char b1 - 0x80), 2) else (RuneError, 1)
         | _ \<Rightarrow> (RuneError, 1))
      else if 0xE0 \<le> x \<and> x \<le> 0xEF then
        (case bs of
           b1 # b2 # _ \<Rightarrow>
             if between (if x = 0xE0 then 0xA0 else 0x80) b1 (if x = 0xED then 0x9F else 0xBF)
                \<and> cont b2
             then (((x - 0xE0) * 64 + (of_char b1 - 0x80)) * 64 + (of_char b2 - 0x80), 3)
             else (RuneError, 1)
         | _ \<Rightarrow> (RuneError, 1))
      else if 0xF0 \<le> x \<and> x \<le> 0xF4 then
        (case bs of
           b1 # b2 # b3 # _ \<Rightarrow>
             if between (if x = 0xF0 then 0x90 else 0x80) b1 (if x = 0xF4 then 0x8F else 0xBF)
                \<and> cont b2 \<and> cont b3
             then ((((x - 0xF0) * 64 + (of_char b1 - 0x80)) * 64 + (of_char b2 - 0x80)) * 64
                   + (of_char b3 - 0x80), 4)
             else (RuneError, 1)
         | _ \<Rightarrow> (RuneError, 1))
      else (RuneError, 1))"

text \<open>
  White space is what \<open>fmt\<close>'s own table \<open>space\<close> says (a copy of Unicode's
  \<open>White_Space\<close> ranges), for runes below \<open>1 << 16\<close>: the ASCII controls 9 to 13 and
  the blank, and among others U+0085 and U+00A0.
\<close>

definition space :: "(nat \<times> nat) list" where
  "space = [(0x0009, 0x000d), (0x0020, 0x0020), (0x0085, 0x0085), (0x00a0, 0x00a0),
            (0x1680, 0x1680), (0x2000, 0x200a), (0x2028, 0x2029), (0x202f, 0x202f),
            (0x205f, 0x205f), (0x3000, 0x3000)]"

definition isSpace :: "nat \<Rightarrow> bool" where
  "isSpace r = (r < 65536 \<and> list_ex (\<lambda>rng. fst rng \<le> r \<and> r \<le> snd rng) space)"

text \<open>
  \<open>SkipSpace\<close> skips leading white space rune by rune; for \<open>Sscanf\<close> a newline is
  an error (also after a carriage return, which is itself white space). Then the
  scanner fails at the end of the input or when no decimal digit follows, reads the
  longest run of the digits \<open>0123456789\<close> (each a single byte; every other rune, and
  every invalid byte, ends the run) and fails when the number does not fit 32 bits.
  Input after the digits is left unread. On any failure the variable is not assigned.
\<close>

function skipSpace :: "string \<Rightarrow> string option" where
  "skipSpace [] = Some []"
| "skipSpace (c # cs) =
     (if fst (decodeRune (c # cs)) = 0x0A then None
      else if isSpace (fst (decodeRune (c # cs)))
           then skipSpace (drop (snd (decodeRune (c # cs))) (c # cs))
      else Some (c # cs))"
  by pat_completeness auto
termination
proof (relation "measure length")
  show "wf (measure length)" by simp
next
  fix c :: char and cs :: string
  have "0 < snd (decodeRune (c # cs))"
    by (simp add: Let_def split: list.splits)
  then show "(drop (snd (decodeRune (c # cs))) (c # cs), c # cs) \<in> measure length"
    by simp
qed

definition isDigit :: "char \<Rightarrow> bool" where
  "isDigit c = (c \<in> set ''0123456789'')"

definition digit_val :: "char \<Rightarrow> nat" where
  "digit_val c = of_char c - 48"

definition scanUint32 :: "string \<Rightarrow> 32 word option" where
  "scanUint32 s =
     (case skipSpace s of
        None \<Rightarrow> None
      | Some rest \<Rightarrow>
          (let tok = takeWhile isDigit rest;
               v = foldl (\<lambda>a c. 10 * a + digit_val c) 0 tok
           in if tok = [] then None
              else if v < 2 ^ 32 then Some (of_nat v)
              else None))"

definition Sscanf_d :: "string \<Rightarrow> 32 word \<Rightarrow> 32 word" where
  "Sscanf_d s cur = (case scanUint32 s of None \<Rightarrow> cur | Some v \<Rightarrow> v)"

subsection \<open>\<open>Handle\<close>\<close>

text \<open>What \<open>decoder.Decode(&spec)\<close> yields: an error, or the decoded specification.\<close>

type_synonym Decoder = "string + ProcessSpec"

text \<open>
  The loop \<open>for i := 0; i < 4; i++\<close> that fills \<open>pipes[i].r, pipes[i].w\<close>; the second
  argument is \<open>i\<close>, the third the number of rounds left. The first failing
  \<open>os.Pipe\<close> ends it; the world it returns holds the pipes made before.
\<close>

fun create_pipes :: "env \<Rightarrow> nat \<Rightarrow> nat \<Rightarrow> world \<Rightarrow> (string + (nat \<times> nat) list) \<times> world" where
  "create_pipes e i 0 w = (Inr [], w)"
| "create_pipes e i (Suc k) w =
     (case os_Pipe e i w of
        (Inl err, w1) \<Rightarrow> (Inl err, w1)
      | (Inr p, w1) \<Rightarrow>
          (case create_pipes e (Suc i) k w1 of
             (Inl err, w2) \<Rightarrow> (Inl err, w2)
           | (Inr ps, w2) \<Rightarrow> (Inr (p # ps), w2)))"

text \<open>
  The goroutine \<open>Handle\<close> spawns with \<open>go reportExitStatus(cd.Runner, cmd, pipes[3].w,
  pipes[2].w, func() {...})\<close>: the arguments as evaluated at the \<open>go\<close> statement, the
  closure by the array \<open>pipes\<close> it captures.
\<close>

record task =
  t_cmd :: Cmd
  t_exitWriter :: nat
  t_errWriter :: nat
  t_pipes :: "(nat \<times> nat) list"

text \<open>
  \<open>Handle\<close> returns its result (\<open>nil, err\<close> is \<open>Inl\<close>; the descriptor slice is \<open>Inr\<close>),
  the world as it leaves it, and the goroutine it has spawned, if any.
\<close>

definition Handle ::
  "'l ContainerDaemon \<Rightarrow> env \<Rightarrow> Decoder \<Rightarrow> world \<Rightarrow> (herror + nat list) \<times> world \<times> task option" where
  "Handle cd e decoder w =
     (case decoder of
        Inl err \<Rightarrow> (Inl (DecodeFailed err), w, None)
      | Inr spec \<Rightarrow>
          (case create_pipes e 0 4 w of
             (Inl err, w1) \<Rightarrow> (Inl (PipeFailed err), w1, None)
           | (Inr pipes, w1) \<Rightarrow>
               (case Users cd (User spec) of
                  (Some user, None) \<Rightarrow>
                    (let uid = Sscanf_d (Uid user) 0;
                         gid = Sscanf_d (Gid user) 0;
                         cmd = \<lparr>cmd_Path = Path spec, cmd_Args = Path spec # Args spec,
                                 cred_Uid = uid, cred_Gid = gid,
                                 Stdin = fst (pipes ! 0),
                                 Stdout = snd (pipes ! 1),
                                 Stderr = snd (pipes ! 2)\<rparr>;
                         stdinW = snd (pipes ! 0);
                         stdoutR = fst (pipes ! 1);
                         stderrR = fst (pipes ! 2);
                         exitStatusR = fst (pipes ! 3);
                         w2 = w1\<lparr>trace := trace w1 @ [EvStart cmd]\<rparr>
                     in case Start (Runner cd) cmd of
                          Some err \<Rightarrow> (Inl (RunFailed err), w2, None)
                        | None \<Rightarrow>
                            (Inr [stdinW, stdoutR, stderrR, exitStatusR], w2,
                             Some \<lparr>t_cmd = cmd, t_exitWriter = snd (pipes ! 3),
                                   t_errWriter = snd (pipes ! 2), t_pipes = pipes\<rparr>))
                | (None, None) \<Rightarrow> (Inl (LookupNoUser (User spec)), w1, None)
                | (_, Some err) \<Rightarrow> (Inl (LookupFailed (User spec) err), w1, None))))"

subsection \<open>The completion task\<close>

text \<open>
  \<open>fmt.Sprintf(format, inserts)\<close> in \<open>tryToReportErrorf\<close> passes the slice \<open>inserts\<close>
  as one operand. Both formats end in their only verb, \<open>%s\<close>, so the message is the
  text before the verb followed by the slice as \<open>%s\<close> prints it: its elements
  between brackets, separated by spaces. The first argument below is the text before
  the verb.
\<close>

fun join_sp :: "string list \<Rightarrow> string" where
  "join_sp [] = []"
| "join_sp [x] = x"
| "join_sp (x # y # ys) = x @ '' '' @ join_sp (y # ys)"

definition Sprintf :: "string \<Rightarrow> string list \<Rightarrow> string" where
  "Sprintf pre inserts = pre @ ''['' @ join_sp inserts @ '']''"

definition bytes_of :: "string \<Rightarrow> byte list" where
  "bytes_of s = map of_char s"

definition tryToReportErrorf :: "env \<Rightarrow> nat \<Rightarrow> string \<Rightarrow> string list \<Rightarrow> world \<Rightarrow> world" where
  "tryToReportErrorf e errWriter pre inserts w =
     (let message = Sprintf pre inserts
      in snd (os_Write e errWriter (bytes_of message) w))"

text \<open>The closure: \<open>pipes[0].r.Close()\<close>, then \<open>pipes[i].w.Close()\<close> for \<open>i\<close> from 1 to 3.\<close>

definition tidyUp :: "(nat \<times> nat) list \<Rightarrow> world \<Rightarrow> world" where
  "tidyUp pipes w =
     fold (\<lambda>i. os_Close (snd (pipes ! i))) [1, 2, 3] (os_Close (fst (pipes ! 0)) w)"

text \<open>\<open>reportExitStatus\<close>; the deferred \<open>tidyUp\<close> runs last on every path.\<close>

definition reportExitStatus ::
  "env \<Rightarrow> Runner \<Rightarrow> Cmd \<Rightarrow> nat \<Rightarrow> nat \<Rightarrow> (world \<Rightarrow> world) \<Rightarrow> world \<Rightarrow> world" where
  "reportExitStatus e runner cmd exitWriter errWriter tidy w =
     (let w0 = w\<lparr>trace := trace w @ [EvWait cmd]\<rparr>;
          (exitStatus, w1) =
            (case Wait runner cmd of
               (_, Some err) \<Rightarrow>
                 (UnknownExitStatus e,
                  tryToReportErrorf e errWriter ''container_daemon: Wait failed: '' [err] w0)
             | (st, None) \<Rightarrow> (st, w0));
          ((n, err2), w2) = os_Write e exitWriter [exitStatus] w1;
          w3 = (case err2 of
                  Some err \<Rightarrow>
                    tryToReportErrorf e errWriter
                      ''container_daemon: failed to Write exit status: '' [err] w2
                | None \<Rightarrow> w2)
      in tidy w3)"

definition run_task :: "'l ContainerDaemon \<Rightarrow> env \<Rightarrow> task \<Rightarrow> world \<Rightarrow> world" where
  "run_task cd e t w =
     reportExitStatus e (Runner cd) (t_cmd t) (t_exitWriter t) (t_errWriter t)
       (tidyUp (t_pipes t)) w"

text \<open>The goroutine runs some time after \<open>Handle\<close> has returned; \<open>run_spawned\<close>
  runs the task of a \<open>Handle\<close> result, if it spawned one, in the world \<open>Handle\<close> left.\<close>

definition run_spawned ::
  "'l ContainerDaemon \<Rightarrow> env \<Rightarrow> (herror + nat list) \<times> world \<times> task option \<Rightarrow> world" where
  "run_spawned cd e h =
     (case snd (snd h) of
        None \<Rightarrow> fst (snd h)
      | Some t \<Rightarrow> run_task cd e t (fst (snd h)))"

subsection \<open>\<open>Init\<close> and \<open>Stop\<close>\<close>

text \<open>Both delegate to the listener and wrap its error. They act on the listener's
  state; the world of descriptors is passed along.\<close>

definition Init :: "'l ContainerDaemon \<Rightarrow> 'l \<times> world \<Rightarrow> string option \<times> 'l \<times> world" where
  "Init cd s =
     (case l_Init (Listener cd) (fst s) of
        (Some err, l') \<Rightarrow>
          (Some (''container_daemon: initializing the listener: '' @ err), l', snd s)
      | (None, l') \<Rightarrow> (None, l', snd s))"

definition Stop :: "'l ContainerDaemon \<Rightarrow> 'l \<times> world \<Rightarrow> string option \<times> 'l \<times> world" where
  "Stop cd s =
     (case l_Stop (Listener cd) (fst s) of
        (Some err, l') \<Rightarrow>
          (Some (''container_daemon: stopping the listener: '' @ err), l', snd s)
      | (None, l') \<Rightarrow> (None, l', snd s))"

subsection \<open>What a run has done\<close>

text \<open>The calls a step has added to the trace, and the descriptors it created.\<close>

definition since :: "world \<Rightarrow> world \<Rightarrow> event list" where
  "since w w' = drop (length (trace w)) (trace w')"

fun created :: "event list \<Rightarrow> nat list" where
  "created [] = []"
| "created (EvPipe r wr # es) = r # wr # created es"
| "created (_ # es) = created es"

definition leaked :: "world \<Rightarrow> world \<Rightarrow> nat list" where
  "leaked w w' = filter (\<lambda>fd. fd \<in> open_fds w') (created (since w w'))"

fun is_Start :: "event \<Rightarrow> bool" where
  "is_Start (EvStart _) = True"
| "is_Start _ = False"

fun is_Wait :: "event \<Rightarrow> bool" where
  "is_Wait (EvWait _) = True"
| "is_Wait _ = False"

fun writes_to :: "nat \<Rightarrow> event list \<Rightarrow> byte list list" where
  "writes_to fd [] = []"
| "writes_to fd (EvWrite fd' bs # es) =
     (if fd' = fd then bs # writes_to fd es else writes_to fd es)"
| "writes_to fd (_ # es) = writes_to fd es"

fun is_Close :: "event \<Rightarrow> bool" where
  "is_Close (EvClose _) = True"
| "is_Close _ = False"

text \<open>The byte \<open>reportExitStatus\<close> holds in \<open>exitStatus\<close> when it writes it: what
  \<open>Wait\<close> returned, or the constant when \<open>Wait\<close> returned an error.\<close>

definition exit_byte :: "env \<Rightarrow> Runner \<Rightarrow> Cmd \<Rightarrow> byte" where
  "exit_byte e r c = (case Wait r c of (st, None) \<Rightarrow> st | (st, Some err) \<Rightarrow> UnknownExitStatus e)"

subsection \<open>Test doubles\<close>

text \<open>
  Concrete collaborators, in the manner of the package's fakes: a user store that
  knows \<open>nobody\<close>, holds a record with unparsable ids for \<open>odd\<close>, and is out of
  order for \<open>broken\<close>; a runner that can start \<open>/bin/echo\<close> and \<open>/bin/false\<close>; a
  listener that counts its \<open>Stop\<close> calls and, like a socket, refuses to be closed
  twice; a process whose descriptors 0 to 2 are open.
\<close>

definition fake_users :: "string \<Rightarrow> UserRec option \<times> string option" where
  "fake_users u =
     (if u = ''nobody'' then (Some \<lparr>Uid = ''65534'', Gid = ''65534''\<rparr>, None)
      else if u = ''odd'' then (Some \<lparr>Uid = ''abc'', Gid = []\<rparr>, None)
      else if u = ''broken'' then (None, Some ''store unavailable'')
      else (None, None))"

definition fake_runner :: Runner where
  "fake_runner =
     \<lparr>Start = (\<lambda>c. if cmd_Path c = ''/bin/echo'' \<or> cmd_Path c = ''/bin/false''
                     then None else Some ''no such file or directory''),
      Wait = (\<lambda>c. (if cmd_Path c = ''/bin/false'' then 1 else 0, None))\<rparr>"

definition fake_runner_wait_fails :: Runner where
  "fake_runner_wait_fails =
     \<lparr>Start = (\<lambda>c. None), Wait = (\<lambda>c. (0, Some ''no child processes''))\<rparr>"

definition fake_listener :: "nat Listener" where
  "fake_listener =
     \<lparr>l_Init = (\<lambda>n. (None, n)),
      l_Stop = (\<lambda>n. (if n = 0 then None else Some ''use of closed network connection'', Suc n))\<rparr>"

definition fake_daemon :: "nat ContainerDaemon" where
  "fake_daemon = \<lparr>Listener = fake_listener, Users = fake_users, Runner = fake_runner\<rparr>"

definition fake_daemon_wait_fails :: "nat ContainerDaemon" where
  "fake_daemon_wait_fails =
     \<lparr>Listener = fake_listener, Users = fake_users, Runner = fake_runner_wait_fails\<rparr>"

definition fake_env :: env where
  "fake_env = \<lparr>pipe_err = (\<lambda>i. None), write_res = (\<lambda>fd bs. None), UnknownExitStatus = 255\<rparr>"

definition fake_env_second_pipe_fails :: env where
  "fake_env_second_pipe_fails =
     \<lparr>pipe_err = (\<lambda>i. if i = 1 then Some ''too many open files'' else None),
      write_res = (\<lambda>fd bs. None), UnknownExitStatus = 255\<rparr>"

definition fake_env_exit_write_fails :: env where
  "fake_env_exit_write_fails =
     \<lparr>pipe_err = (\<lambda>i. None),
      write_res = (\<lambda>fd bs. if fd = 10 then Some (0, ''broken pipe'') else None),
      UnknownExitStatus = 255\<rparr>"

definition world0 :: world where
  "world0 = \<lparr>next_fd = 3, open_fds = {0, 1, 2}, pipe_data = (\<lambda>fd. []), trace = []\<rparr>"

definition spec_of :: "string \<Rightarrow> string \<Rightarrow> ProcessSpec" where
  "spec_of p u = \<lparr>Path = p, Args = [''hi''], User = u\<rparr>"

section \<open>Facts about the operations\<close>

lemmas scan_defs = scanUint32_def isSpace_def space_def isDigit_def digit_val_def cont_def
  between_def RuneError_def Let_def

text \<open>The scanner on some inputs: digits, digits after ASCII and after Unicode white
  space (U+00A0, U+2028, U+3000, U+0085 U+205F U+1680), and inputs it rejects.\<close>

lemma scan_digits: "scanUint32 ''65534'' = Some 65534"
  by (simp add: scan_defs)

lemma scan_after_blanks: "scanUint32 [CHR '' '', CHR 0x09, CHR ''5'', CHR ''x''] = Some 5"
  by (simp add: scan_defs)

lemma scan_after_nbsp: "scanUint32 [CHR 0xC2, CHR 0xA0, CHR ''5''] = Some 5"
  by (simp add: scan_defs)

lemma scan_after_line_separator: "scanUint32 [CHR 0xE2, CHR 0x80, CHR 0xA8, CHR ''7''] = Some 7"
  by (simp add: scan_defs)

lemma scan_after_ideographic_space:
  "scanUint32 [CHR 0xE3, CHR 0x80, CHR 0x80, CHR ''1'', CHR ''2''] = Some 12"
  by (simp add: scan_defs)

lemma scan_after_three_spaces:
  "scanUint32 [CHR 0xC2, CHR 0x85, CHR 0xE2, CHR 0x81, CHR 0x9F, CHR 0xE1, CHR 0x9A, CHR 0x80,
               CHR ''9''] = Some 9"
  by (simp add: scan_defs)

lemma scan_rejects:
  "scanUint32 ''abc'' = None"
  "scanUint32 [] = None"
  "scanUint32 ''-1'' = None"
  "scanUint32 [CHR 0x0A, CHR ''5''] = None"
  "scanUint32 [CHR 0x0D, CHR 0x0A, CHR ''5''] = None"
  "scanUint32 [CHR 0xC2, CHR ''5''] = None"
  "scanUint32 [CHR 0xC0, CHR 0xA0, CHR ''5''] = None"
  "scanUint32 [CHR 0xE1, CHR 0xA0, CHR 0x8E, CHR ''5''] = None"
  "scanUint32 ''4294967296'' = None"
  by (simp_all add: scan_defs)

lemma scan_max: "scanUint32 ''4294967295'' = Some 4294967295"
  by (simp add: scan_defs)

lemma create_pipes_4:
  "create_pipes e 0 4 w = (Inr ps, w1) \<Longrightarrow>
     ps = [(next_fd w, next_fd w + 1), (next_fd w + 2, next_fd w + 3),
           (next_fd w + 4, next_fd w + 5), (next_fd w + 6, next_fd w + 7)] \<and>
     next_fd w1 = next_fd w + 8 \<and>
     open_fds w1 = open_fds w \<union> {next_fd w ..< next_fd w + 8} \<and>
     pipe_data w1 = (pipe_data w)(next_fd w + 1 := [], next_fd w + 3 := [],
                                   next_fd w + 5 := [], next_fd w + 7 := []) \<and>
     trace w1 = trace w @ [EvPipe (next_fd w) (next_fd w + 1), EvPipe (next_fd w + 2) (next_fd w + 3),
           EvPipe (next_fd w + 4) (next_fd w + 5), EvPipe (next_fd w + 6) (next_fd w + 7)]"
  apply (simp add: eval_nat_numeral os_Pipe_def Let_def split: option.splits prod.splits sum.splits)
  apply (auto simp: atLeastLessThan_def)
  done

lemma since_append: "trace w' = trace w @ es \<Longrightarrow> since w w' = es"
  by (simp add: since_def)

lemma os_Write_trace: "trace (snd (os_Write e fd bs w)) = trace w @ [EvWrite fd bs]"
  by (simp add: os_Write_def Let_def split: option.splits prod.splits)

lemma os_Write_open: "open_fds (snd (os_Write e fd bs w)) = open_fds w"
  by (simp add: os_Write_def Let_def split: option.splits prod.splits)

lemma os_Write_err:
  "snd (fst (os_Write e fd bs w)) =
     (if fd \<in> open_fds w then map_option snd (write_res e fd bs) else Some ''file already closed'')"
  by (simp add: os_Write_def Let_def split: option.splits prod.splits)



lemma os_Write_data_ok:
  "fd \<in> open_fds w \<Longrightarrow> write_res e fd bs = None \<Longrightarrow>
     pipe_data (snd (os_Write e fd bs w)) fd = pipe_data w fd @ bs"
  by (simp add: os_Write_def Let_def)

lemma tryToReportErrorf_trace:
  "trace (tryToReportErrorf e fd pre ins w) = trace w @ [EvWrite fd (bytes_of (Sprintf pre ins))]"
  by (simp add: tryToReportErrorf_def os_Write_trace)

lemma tryToReportErrorf_open: "open_fds (tryToReportErrorf e fd pre ins w) = open_fds w"
  by (simp add: tryToReportErrorf_def os_Write_open)


lemma tidyUp_trace:
  "trace (tidyUp ps w) =
     trace w @ [EvClose (fst (ps ! 0)), EvClose (snd (ps ! 1)), EvClose (snd (ps ! 2)), EvClose (snd (ps ! 3))]"
  by (simp add: tidyUp_def os_Close_def)

lemma tidyUp_open:
  "open_fds (tidyUp ps w) = open_fds w - {fst (ps ! 0), snd (ps ! 1), snd (ps ! 2), snd (ps ! 3)}"
  by (auto simp add: tidyUp_def os_Close_def)


lemma run_task_trace:
  "trace (run_task cd e t w) =
     trace w @ [EvWait (t_cmd t)] @
     (case snd (Wait (Runner cd) (t_cmd t)) of
        Some err \<Rightarrow> [EvWrite (t_errWriter t) (bytes_of (Sprintf ''container_daemon: Wait failed: '' [err]))]
      | None \<Rightarrow> []) @
     [EvWrite (t_exitWriter t) [exit_byte e (Runner cd) (t_cmd t)]] @
     (case (if t_exitWriter t \<in> open_fds w
            then map_option snd (write_res e (t_exitWriter t) [exit_byte e (Runner cd) (t_cmd t)])
            else Some ''file already closed'') of
        Some err \<Rightarrow> [EvWrite (t_errWriter t)
                       (bytes_of (Sprintf ''container_daemon: failed to Write exit status: '' [err]))]
      | None \<Rightarrow> []) @
     map EvClose [fst (t_pipes t ! 0), snd (t_pipes t ! 1), snd (t_pipes t ! 2), snd (t_pipes t ! 3)]"
  by (simp add: run_task_def reportExitStatus_def exit_byte_def Let_def split_def tidyUp_trace
        tryToReportErrorf_trace tryToReportErrorf_open os_Write_trace os_Write_open os_Write_err
      split: option.splits prod.splits)


lemma create_pipes_ok:
  assumes "pipe_err e 0 = None" "pipe_err e 1 = None" "pipe_err e 2 = None" "pipe_err e 3 = None"
  shows "\<exists>ps w1. create_pipes e 0 4 w = (Inr ps, w1)"
  using assms by (simp add: eval_nat_numeral os_Pipe_def Let_def)

lemma Handle_pipe_err:
  "create_pipes e 0 4 w = (Inl err, w1) \<Longrightarrow>
     Handle cd e (Inr spec) w = (Inl (PipeFailed err), w1, None)"
  by (simp add: Handle_def)

lemma Handle_lookup_none:
  "create_pipes e 0 4 w = (Inr ps, w1) \<Longrightarrow> Users cd (User spec) = (None, None) \<Longrightarrow>
     Handle cd e (Inr spec) w = (Inl (LookupNoUser (User spec)), w1, None)"
  by (simp add: Handle_def)

lemma Handle_lookup_err:
  "create_pipes e 0 4 w = (Inr ps, w1) \<Longrightarrow> Users cd (User spec) = (u, Some err) \<Longrightarrow>
     Handle cd e (Inr spec) w = (Inl (LookupFailed (User spec) err), w1, None)"
  by (simp add: Handle_def split: option.splits)

lemma Handle_user_found:
  "create_pipes e 0 4 w = (Inr ps, w1) \<Longrightarrow> Users cd (User spec) = (Some user, None) \<Longrightarrow>
     Handle cd e (Inr spec) w =
       (let cmd = \<lparr>cmd_Path = Path spec, cmd_Args = Path spec # Args spec,
                    cred_Uid = Sscanf_d (Uid user) 0, cred_Gid = Sscanf_d (Gid user) 0,
                    Stdin = fst (ps ! 0), Stdout = snd (ps ! 1), Stderr = snd (ps ! 2)\<rparr>
        in case Start (Runner cd) cmd of
             Some err \<Rightarrow> (Inl (RunFailed err), w1\<lparr>trace := trace w1 @ [EvStart cmd]\<rparr>, None)
           | None \<Rightarrow>
               (Inr [snd (ps ! 0), fst (ps ! 1), fst (ps ! 2), fst (ps ! 3)],
                w1\<lparr>trace := trace w1 @ [EvStart cmd]\<rparr>,
                Some \<lparr>t_cmd = cmd, t_exitWriter = snd (ps ! 3), t_errWriter = snd (ps ! 2),
                      t_pipes = ps\<rparr>))"
  by (simp add: Handle_def Let_def split: option.splits)

lemma Handle_Inr:
  assumes "Handle cd e dec w = (Inr fds, w', sp)"
  shows "\<exists>spec user cmd.
     dec = Inr spec \<and> Users cd (User spec) = (Some user, None) \<and>
     cmd = \<lparr>cmd_Path = Path spec, cmd_Args = Path spec # Args spec,
            cred_Uid = Sscanf_d (Uid user) 0, cred_Gid = Sscanf_d (Gid user) 0,
            Stdin = next_fd w, Stdout = next_fd w + 3, Stderr = next_fd w + 5\<rparr> \<and>
     Start (Runner cd) cmd = None \<and>
     fds = [next_fd w + 1, next_fd w + 2, next_fd w + 4, next_fd w + 6] \<and>
     sp = Some \<lparr>t_cmd = cmd, t_exitWriter = next_fd w + 7, t_errWriter = next_fd w + 5,
                t_pipes = [(next_fd w, next_fd w + 1), (next_fd w + 2, next_fd w + 3),
                           (next_fd w + 4, next_fd w + 5), (next_fd w + 6, next_fd w + 7)]\<rparr> \<and>
     open_fds w' = open_fds w \<union> {next_fd w ..< next_fd w + 8} \<and>
     pipe_data w' = (pipe_data w)(next_fd w + 1 := [], next_fd w + 3 := [],
                                   next_fd w + 5 := [], next_fd w + 7 := []) \<and>
     trace w' = trace w @ [EvPipe (next_fd w) (next_fd w + 1), EvPipe (next_fd w + 2) (next_fd w + 3),
           EvPipe (next_fd w + 4) (next_fd w + 5), EvPipe (next_fd w + 6) (next_fd w + 7), EvStart cmd]"
proof -
  from assms obtain spec where dec: "dec = Inr spec"
    by (cases dec) (auto simp: Handle_def)
  from assms dec obtain ps w1 where cp: "create_pipes e 0 4 w = (Inr ps, w1)"
    by (cases "create_pipes e 0 4 w") (auto simp: Handle_def split: sum.splits)
  note p = create_pipes_4 [OF cp]
  from assms dec cp obtain user where u: "Users cd (User spec) = (Some user, None)"
    by (cases "Users cd (User spec)") (auto simp: Handle_def split: option.splits)
  have ps: "fst (ps ! 0) = next_fd w" "snd (ps ! 0) = next_fd w + 1"
    "fst (ps ! 1) = next_fd w + 2" "snd (ps ! 1) = next_fd w + 3"
    "fst (ps ! 2) = next_fd w + 4" "snd (ps ! 2) = next_fd w + 5"
    "fst (ps ! 3) = next_fd w + 6" "snd (ps ! 3) = next_fd w + 7"
    using p by (simp_all add: eval_nat_numeral)
  define cmd where "cmd = \<lparr>cmd_Path = Path spec, cmd_Args = Path spec # Args spec,
            cred_Uid = Sscanf_d (Uid user) 0, cred_Gid = Sscanf_d (Gid user) 0,
            Stdin = next_fd w, Stdout = next_fd w + 3, Stderr = next_fd w + 5\<rparr>"
  have H: "(Inr fds, w', sp) =
       (case Start (Runner cd) cmd of
             Some err \<Rightarrow> (Inl (RunFailed err), w1\<lparr>trace := trace w1 @ [EvStart cmd]\<rparr>, None)
           | None \<Rightarrow>
               (Inr [next_fd w + 1, next_fd w + 2, next_fd w + 4, next_fd w + 6],
                w1\<lparr>trace := trace w1 @ [EvStart cmd]\<rparr>,
                Some \<lparr>t_cmd = cmd, t_exitWriter = next_fd w + 7, t_errWriter = next_fd w + 5,
                      t_pipes = ps\<rparr>))"
    using assms unfolding dec Handle_user_found [OF cp u] Let_def ps cmd_def by simp
  then have st: "Start (Runner cd) cmd = None"
    by (cases "Start (Runner cd) cmd") simp_all
  from H have r: "fds = [next_fd w + 1, next_fd w + 2, next_fd w + 4, next_fd w + 6]"
    "w' = w1\<lparr>trace := trace w1 @ [EvStart cmd]\<rparr>"
    "sp = Some \<lparr>t_cmd = cmd, t_exitWriter = next_fd w + 7, t_errWriter = next_fd w + 5,
                      t_pipes = ps\<rparr>"
    unfolding st by simp_all
  have "dec = Inr spec \<and> Users cd (User spec) = (Some user, None) \<and>
     cmd = \<lparr>cmd_Path = Path spec, cmd_Args = Path spec # Args spec,
            cred_Uid = Sscanf_d (Uid user) 0, cred_Gid = Sscanf_d (Gid user) 0,
            Stdin = next_fd w, Stdout = next_fd w + 3, Stderr = next_fd w + 5\<rparr> \<and>
     Start (Runner cd) cmd = None \<and>
     fds = [next_fd w + 1, next_fd w + 2, next_fd w + 4, next_fd w + 6] \<and>
     sp = Some \<lparr>t_cmd = cmd, t_exitWriter = next_fd w + 7, t_errWriter = next_fd w + 5,
                t_pipes = [(next_fd w, next_fd w + 1), (next_fd w + 2, next_fd w + 3),
                           (next_fd w + 4, next_fd w + 5), (next_fd w + 6, next_fd w + 7)]\<rparr> \<and>
     open_fds w' = open_fds w \<union> {next_fd w ..< next_fd w + 8} \<and>
     pipe_data w' = (pipe_data w)(next_fd w + 1 := [], next_fd w + 3 := [],
                                   next_fd w + 5 := [], next_fd w + 7 := []) \<and>
     trace w' = trace w @ [EvPipe (next_fd w) (next_fd w + 1), EvPipe (next_fd w + 2) (next_fd w + 3),
           EvPipe (next_fd w + 4) (next_fd w + 5), EvPipe (next_fd w + 6) (next_fd w + 7), EvStart cmd]"
    using dec u st r p cmd_def by simp
  then show ?thesis by blast
qed

lemma Handle_success:
  assumes "pipe_err e 0 = None" "pipe_err e 1 = None" "pipe_err e 2 = None" "pipe_err e 3 = None"
    and u: "Users cd (User spec) = (Some user, None)"
    and st: "Start (Runner cd)
       \<lparr>cmd_Path = Path spec, cmd_Args = Path spec # Args spec,
        cred_Uid = Sscanf_d (Uid user) 0, cred_Gid = Sscanf_d (Gid user) 0,
        Stdin = next_fd w, Stdout = next_fd w + 3, Stderr = next_fd w + 5\<rparr> = None"
  shows "\<exists>w'. Handle cd e (Inr spec) w =
      (Inr [next_fd w + 1, next_fd w + 2, next_fd w + 4, next_fd w + 6], w',
       Some \<lparr>t_cmd = \<lparr>cmd_Path = Path spec, cmd_Args = Path spec # Args spec,
                cred_Uid = Sscanf_d (Uid user) 0, cred_Gid = Sscanf_d (Gid user) 0,
                Stdin = next_fd w, Stdout = next_fd w + 3, Stderr = next_fd w + 5\<rparr>,
             t_exitWriter = next_fd w + 7, t_errWriter = next_fd w + 5,
             t_pipes = [(next_fd w, next_fd w + 1), (next_fd w + 2, next_fd w + 3),
                        (next_fd w + 4, next_fd w + 5), (next_fd w + 6, next_fd w + 7)]\<rparr>)"
proof -
  obtain ps w1 where cp: "create_pipes e 0 4 w = (Inr ps, w1)"
    using create_pipes_ok [OF assms(1-4)] by blast
  note p = create_pipes_4 [OF cp]
  have ps: "fst (ps ! 0) = next_fd w" "snd (ps ! 0) = next_fd w + 1"
    "fst (ps ! 1) = next_fd w + 2" "snd (ps ! 1) = next_fd w + 3"
    "fst (ps ! 2) = next_fd w + 4" "snd (ps ! 2) = next_fd w + 5"
    "fst (ps ! 3) = next_fd w + 6" "snd (ps ! 3) = next_fd w + 7"
    using p by (simp_all add: eval_nat_numeral)
  show ?thesis
    unfolding Handle_user_found [OF cp u] Let_def ps st
    using p by simp
qed

lemma run_task_open:
  "open_fds (run_task cd e t w) =
     open_fds w - {fst (t_pipes t ! 0), snd (t_pipes t ! 1), snd (t_pipes t ! 2), snd (t_pipes t ! 3)}"
  by (simp add: run_task_def reportExitStatus_def Let_def split_def tidyUp_open
        tryToReportErrorf_open os_Write_open
      split: option.splits prod.splits)


lemma echo_handled:
  "\<exists>w'. Handle fake_daemon fake_env (Inr (spec_of ''/bin/echo'' ''nobody'')) world0 =
      (Inr [4, 5, 7, 9], w',
       Some \<lparr>t_cmd = \<lparr>cmd_Path = ''/bin/echo'', cmd_Args = [''/bin/echo'', ''hi''],
                cred_Uid = 65534, cred_Gid = 65534, Stdin = 3, Stdout = 6, Stderr = 8\<rparr>,
             t_exitWriter = 10, t_errWriter = 8,
             t_pipes = [(3, 4), (5, 6), (7, 8), (9, 10)]\<rparr>)"
  using Handle_success [of fake_env fake_daemon "spec_of ''/bin/echo'' ''nobody''"
      "\<lparr>Uid = ''65534'', Gid = ''65534''\<rparr>" world0]
  by (simp add: fake_env_def fake_daemon_def fake_users_def fake_runner_def spec_of_def world0_def
        Sscanf_d_def scan_digits)

lemma Handle_task:
  assumes "Handle cd e dec w = (Inr fds, w', Some t)"
  shows "Stdin (t_cmd t) = next_fd w" "Stdout (t_cmd t) = next_fd w + 3"
    "Stderr (t_cmd t) = next_fd w + 5" "t_exitWriter t = next_fd w + 7"
    "t_errWriter t = next_fd w + 5"
    "t_pipes t = [(next_fd w, next_fd w + 1), (next_fd w + 2, next_fd w + 3),
                  (next_fd w + 4, next_fd w + 5), (next_fd w + 6, next_fd w + 7)]"
    "fds = [next_fd w + 1, next_fd w + 2, next_fd w + 4, next_fd w + 6]"
    "open_fds w' = open_fds w \<union> {next_fd w ..< next_fd w + 8}"
    "pipe_data w' (next_fd w + 7) = []"
  using Handle_Inr [OF assms] by auto

lemma run_task_closes:
  "filter is_Close (since w (run_task cd e t w)) =
     [EvClose (fst (t_pipes t ! 0)), EvClose (snd (t_pipes t ! 1)),
      EvClose (snd (t_pipes t ! 2)), EvClose (snd (t_pipes t ! 3))]"
  unfolding since_append [OF run_task_trace]
  by (simp split: option.splits)

lemma nobody_handled:
  assumes "pipe_err e 0 = None" "pipe_err e 1 = None" "pipe_err e 2 = None" "pipe_err e 3 = None"
    and "Users cd = fake_users"
    and "Start (Runner cd)
       \<lparr>cmd_Path = p, cmd_Args = [p, ''hi''], cred_Uid = 65534, cred_Gid = 65534,
        Stdin = 3, Stdout = 6, Stderr = 8\<rparr> = None"
  shows "\<exists>w'. Handle cd e (Inr (spec_of p ''nobody'')) world0 =
      (Inr [4, 5, 7, 9], w',
       Some \<lparr>t_cmd = \<lparr>cmd_Path = p, cmd_Args = [p, ''hi''],
                cred_Uid = 65534, cred_Gid = 65534, Stdin = 3, Stdout = 6, Stderr = 8\<rparr>,
             t_exitWriter = 10, t_errWriter = 8,
             t_pipes = [(3, 4), (5, 6), (7, 8), (9, 10)]\<rparr>)"
  using assms Handle_success [of e cd "spec_of p ''nobody''"
      "\<lparr>Uid = ''65534'', Gid = ''65534''\<rparr>" world0]
  by (simp add: fake_users_def spec_of_def world0_def
        Sscanf_d_def scan_digits)

lemma exit_byte_Wait_failed:
  "snd (Wait r c) = Some err \<Longrightarrow> exit_byte e r c = UnknownExitStatus e"
  by (cases "Wait r c") (auto simp: exit_byte_def)


lemma created_append: "created (es @ fs) = created es @ created fs"
  by (induction es rule: created.induct) simp_all

lemma create_pipes_only_opens:
  "create_pipes e i k w = (r, w1) \<Longrightarrow>
     \<exists>es. trace w1 = trace w @ es \<and> filter is_Close es = [] \<and> filter is_Start es = [] \<and>
          open_fds w1 = open_fds w \<union> set (created es)"
proof (induction k arbitrary: i w r w1)
  case 0
  then show ?case by simp
next
  case (Suc k)
  show ?case
  proof (cases "pipe_err e i")
    case (Some err)
    with Suc.prems show ?thesis by (simp add: os_Pipe_def)
  next
    case None
    define w0 where "w0 = snd (os_Pipe e i w)"
    have w0: "trace w0 = trace w @ [EvPipe (next_fd w) (Suc (next_fd w))]"
      "open_fds w0 = insert (next_fd w) (insert (Suc (next_fd w)) (open_fds w))"
      by (simp_all add: w0_def os_Pipe_def None Let_def)
    obtain r' w' where c: "create_pipes e (Suc i) k w0 = (r', w')"
      by (cases "create_pipes e (Suc i) k w0")
    from Suc.prems None c have w1: "w1 = w'"
      by (auto simp: os_Pipe_def Let_def w0_def split: sum.splits)
    from Suc.IH [OF c] obtain es where
      es: "trace w' = trace w0 @ es" "filter is_Close es = []" "filter is_Start es = []"
        "open_fds w' = open_fds w0 \<union> set (created es)"
      by blast
    show ?thesis
      by (rule exI [of _ "EvPipe (next_fd w) (Suc (next_fd w)) # es"])
         (auto simp: w1 es w0)
  qed
qed

text \<open>On no path does \<open>Handle\<close> close a descriptor: whatever it returns, every
  descriptor it has created is open when it returns.\<close>

lemma Handle_never_closes:
  "filter is_Close (since w (fst (snd (Handle cd e dec w)))) = [] \<and>
   open_fds (fst (snd (Handle cd e dec w))) =
     open_fds w \<union> set (created (since w (fst (snd (Handle cd e dec w)))))"
proof (cases dec)
  case (Inl err)
  then show ?thesis by (simp add: Handle_def since_def)
next
  case (Inr spec)
  obtain r w1 where cp: "create_pipes e 0 4 w = (r, w1)"
    by (cases "create_pipes e 0 4 w")
  from create_pipes_only_opens [OF cp] obtain es where
    es: "trace w1 = trace w @ es" "filter is_Close es = []"
      "open_fds w1 = open_fds w \<union> set (created es)"
    by blast
  have "\<exists>c. fst (snd (Handle cd e dec w)) = w1 \<or>
            fst (snd (Handle cd e dec w)) = w1\<lparr>trace := trace w1 @ [EvStart c]\<rparr>"
    unfolding Inr using cp
    by (auto simp: Handle_def Let_def split: sum.splits option.splits prod.splits)
  then obtain c where
    "fst (snd (Handle cd e dec w)) = w1 \<or>
     fst (snd (Handle cd e dec w)) = w1\<lparr>trace := trace w1 @ [EvStart c]\<rparr>"
    by blast
  then show ?thesis
  proof
    assume h: "fst (snd (Handle cd e dec w)) = w1"
    show ?thesis unfolding h by (simp add: since_def es)
  next
    assume h: "fst (snd (Handle cd e dec w)) = w1\<lparr>trace := trace w1 @ [EvStart c]\<rparr>"
    show ?thesis unfolding h by (simp add: since_def es created_append)
  qed
qed

text \<open>For a user the resolver does not resolve, \<open>Handle\<close> always returns an error,
  spawns no task and never calls the Runner's \<open>Start\<close>.\<close>

lemma unresolved_user_fails:
  assumes "fst (Users cd (User spec)) = None \<or> snd (Users cd (User spec)) \<noteq> None"
  shows "\<exists>err w'. Handle cd e (Inr spec) w = (Inl err, w', None) \<and>
           filter is_Start (since w w') = []"
proof -
  obtain r w1 where cp: "create_pipes e 0 4 w = (r, w1)"
    by (cases "create_pipes e 0 4 w")
  from create_pipes_only_opens [OF cp] have s: "filter is_Start (since w w1) = []"
    by (auto simp: since_def)
  obtain u x where ux: "Users cd (User spec) = (u, x)"
    by (cases "Users cd (User spec)")
  show ?thesis
  proof (cases r)
    case (Inl err)
    with cp s show ?thesis by (simp add: Handle_pipe_err)
  next
    case (Inr ps)
    show ?thesis
    proof (cases x)
      case None
      with assms ux have "Users cd (User spec) = (None, None)" by simp
      from Handle_lookup_none [OF cp [unfolded Inr] this] s show ?thesis by simp
    next
      case (Some err)
      with ux have "Users cd (User spec) = (u, Some err)" by simp
      from Handle_lookup_err [OF cp [unfolded Inr] this] s show ?thesis by simp
    qed
  qed
qed

section \<open>The claims\<close>

subsection \<open>Decoding\<close>

text \<open>
  Claim C8. When the connection does not decode into a \<open>ProcessSpec\<close>, \<open>Handle\<close>
  fails with the decode error, and nothing has been allocated: the world is the one
  it was given (no pipe, no call to the Runner) and no task is spawned.
\<close>

theorem Handle_decode_error:
  "Handle cd e (Inl err) w = (Inl (DecodeFailed err), w, None)"
  by (simp add: Handle_def)

subsection \<open>The error returns of \<open>Handle\<close> after the pipes are made\<close>

text \<open>
  \<open>Handle\<close> creates the pipes before it looks the user up, and none of its error
  returns closes anything (\<open>Handle_never_closes\<close>); the only \<open>Close\<close> calls of
  the file are in the closure handed to the goroutine, which is spawned on success
  alone. The three theorems below run \<open>Handle\<close> on its three error returns that
  follow a successful \<open>os.Pipe\<close>.
\<close>

text \<open>
  Claim C1. For a user the resolver cannot resolve (no record, or a lookup error),
  \<open>Handle\<close> returns an error and starts no process, and every pipe created during
  the attempt is closed before it returns. The first two hold; the last does not:
  for the unknown user \<open>doesnotexist\<close> and for the failing lookup of \<open>broken\<close>,
  \<open>Handle\<close> returns the lookup error, spawns no task and never calls the Runner, and
  the eight descriptors of the four pipes it created are still open when it returns.
\<close>

theorem Handle_unknown_user_leaks_pipes:
  "(case Handle fake_daemon fake_env (Inr (spec_of ''/bin/echo'' ''doesnotexist'')) world0 of
      (r, w', sp) \<Rightarrow>
        r = Inl (LookupNoUser ''doesnotexist'') \<and> sp = None \<and>
        trace w' = [EvPipe 3 4, EvPipe 5 6, EvPipe 7 8, EvPipe 9 10] \<and>
        leaked world0 w' = [3, 4, 5, 6, 7, 8, 9, 10]) \<and>
   (case Handle fake_daemon fake_env (Inr (spec_of ''/bin/echo'' ''broken'')) world0 of
      (r, w', sp) \<Rightarrow>
        r = Inl (LookupFailed ''broken'' ''store unavailable'') \<and> sp = None \<and>
        trace w' = [EvPipe 3 4, EvPipe 5 6, EvPipe 7 8, EvPipe 9 10] \<and>
        leaked world0 w' = [3, 4, 5, 6, 7, 8, 9, 10])"
proof -
  obtain ps w1 where cp: "create_pipes fake_env 0 4 world0 = (Inr ps, w1)"
    using create_pipes_ok [of fake_env world0] by (auto simp: fake_env_def)
  have w1: "trace w1 = [EvPipe 3 4, EvPipe 5 6, EvPipe 7 8, EvPipe 9 10]"
    "open_fds w1 = {0, 1, 2} \<union> {3 ..< 11}"
    using create_pipes_4 [OF cp] by (simp_all add: world0_def)
  have l: "leaked world0 w1 = [3, 4, 5, 6, 7, 8, 9, 10]"
    by (simp add: leaked_def since_def w1) (simp add: world0_def)
  have a: "Users fake_daemon (User (spec_of ''/bin/echo'' ''doesnotexist'')) = (None, None)"
    by (simp add: fake_daemon_def fake_users_def spec_of_def)
  have b: "Users fake_daemon (User (spec_of ''/bin/echo'' ''broken'')) = (None, Some ''store unavailable'')"
    by (simp add: fake_daemon_def fake_users_def spec_of_def)
  have u: "User (spec_of ''/bin/echo'' ''doesnotexist'') = ''doesnotexist''"
    "User (spec_of ''/bin/echo'' ''broken'') = ''broken''"
    by (simp_all add: spec_of_def)
  show ?thesis
    unfolding Handle_lookup_none [OF cp a] Handle_lookup_err [OF cp b] u
    by (simp add: w1 l)
qed

text \<open>
  Claim C2. When creating one of the four pipes fails, \<open>Handle\<close> fails with the
  pipe error and every pipe created so far is closed before it returns. The error is
  returned, but when the second \<open>os.Pipe\<close> fails the two ends of the first pipe are
  still open when \<open>Handle\<close> returns.
\<close>

theorem Handle_pipe_failure_leaks_pipe:
  "(case Handle fake_daemon fake_env_second_pipe_fails (Inr (spec_of ''/bin/echo'' ''nobody'')) world0 of
      (r, w', sp) \<Rightarrow>
        r = Inl (PipeFailed ''too many open files'') \<and> sp = None \<and>
        trace w' = [EvPipe 3 4] \<and>
        leaked world0 w' = [3, 4])"
proof -
  have cp: "create_pipes fake_env_second_pipe_fails 0 4 world0 =
      (Inl ''too many open files'',
       world0\<lparr>next_fd := 5, open_fds := {3, 4, 0, 1, 2}, pipe_data := (pipe_data world0)(4 := []),
         trace := [EvPipe 3 4]\<rparr>)"
    by (simp add: eval_nat_numeral os_Pipe_def Let_def fake_env_second_pipe_fails_def world0_def)
  show ?thesis
    unfolding Handle_pipe_err [OF cp]
    by (simp add: leaked_def since_def) (simp add: world0_def)
qed

text \<open>
  Claim C3. When the Runner's \<open>Start\<close> fails, \<open>Handle\<close> fails with the start error,
  all eight pipe ends are closed before it returns, and no task is spawned. The error
  is returned and no task is spawned, but for a path the runner cannot start no
  \<open>Close\<close> is called and all eight pipe ends are still open when \<open>Handle\<close> returns.
\<close>

theorem Handle_start_failure_leaks_pipes:
  "(case Handle fake_daemon fake_env (Inr (spec_of ''/no/such/file'' ''nobody'')) world0 of
      (r, w', sp) \<Rightarrow>
        r = Inl (RunFailed ''no such file or directory'') \<and> sp = None \<and>
        filter is_Close (trace w') = [] \<and>
        leaked world0 w' = [3, 4, 5, 6, 7, 8, 9, 10])"
proof -
  obtain ps w1 where cp: "create_pipes fake_env 0 4 world0 = (Inr ps, w1)"
    using create_pipes_ok [of fake_env world0] by (auto simp: fake_env_def)
  have w1: "trace w1 = [EvPipe 3 4, EvPipe 5 6, EvPipe 7 8, EvPipe 9 10]"
    "open_fds w1 = {0, 1, 2} \<union> {3 ..< 11}"
    using create_pipes_4 [OF cp] by (simp_all add: world0_def)
  have a: "Users fake_daemon (User (spec_of ''/no/such/file'' ''nobody'')) =
      (Some \<lparr>Uid = ''65534'', Gid = ''65534''\<rparr>, None)"
    by (simp add: fake_daemon_def fake_users_def spec_of_def)
  have s: "Start (Runner fake_daemon) (c\<lparr>cmd_Path := ''/no/such/file''\<rparr>) = Some ''no such file or directory''" for c
    by (simp add: fake_daemon_def fake_runner_def)
  show ?thesis
    unfolding Handle_user_found [OF cp a]
    by (simp add: Let_def spec_of_def fake_daemon_def fake_runner_def leaked_def since_def w1)
       (simp add: world0_def)
qed

subsection \<open>\<open>Stop\<close>\<close>

text \<open>
  Claim C9, as amended. \<open>Stop\<close> keeps no state of its own: every call calls the
  listener's \<open>Stop\<close> once and returns an error exactly when that call does (the
  listener's message, wrapped), so a repeated \<open>Stop\<close> succeeds when the listener's
  repeated \<open>Stop\<close> does. \<open>Stop\<close> itself performs no operation on descriptors: the
  world of descriptors and pipes is the one it was given.
\<close>

theorem Stop_delegates:
  "Stop cd (l, w) =
     (map_option (\<lambda>err. ''container_daemon: stopping the listener: '' @ err)
        (fst (l_Stop (Listener cd) l)),
      snd (l_Stop (Listener cd) l), w)"
  by (simp add: Stop_def split: prod.splits option.splits)

text \<open>
  Claim C9 as stated (a second \<open>Stop\<close> never errors) fails for a listener that, like a
  socket, cannot be closed twice: the first \<open>Stop\<close> succeeds and the second returns the
  listener's error.
\<close>

theorem Stop_twice_errors:
  "fst (Stop fake_daemon (0, world0)) = None \<and>
   fst (Stop fake_daemon (snd (Stop fake_daemon (0, world0)))) =
     Some ''container_daemon: stopping the listener: use of closed network connection''"
  by (simp add: Stop_def fake_daemon_def fake_listener_def)

subsection \<open>The successful return\<close>

text \<open>
  Claim C7. When \<open>Handle\<close> succeeds, its result is exactly four descriptors, all open
  when it returns, in the fixed order: the write end of the pipe whose read end is the
  command's stdin, the read end of the pipe whose write end is the command's stdout,
  the read end of the pipe whose write end is the command's stderr, and the read end
  of the pipe whose write end the spawned task reports the exit status on. The calls
  \<open>Handle\<close> has made are the four \<open>os.Pipe\<close> and one \<open>Start\<close>: it has not called
  the Runner's \<open>Wait\<close>, which is left to the task it spawned.
\<close>

theorem Handle_success_descriptors:
  assumes "Handle cd e dec w = (Inr fds, w', sp)"
  shows "\<exists>t. sp = Some t \<and>
     since w w' =
       [EvPipe (Stdin (t_cmd t)) (fds ! 0), EvPipe (fds ! 1) (Stdout (t_cmd t)),
        EvPipe (fds ! 2) (Stderr (t_cmd t)), EvPipe (fds ! 3) (t_exitWriter t),
        EvStart (t_cmd t)] \<and>
     length fds = 4 \<and> distinct fds \<and> set fds \<subseteq> open_fds w' \<and>
     filter is_Wait (since w w') = []"
proof -
  from Handle_Inr [OF assms] obtain spec user cmd where
    sp: "sp = Some \<lparr>t_cmd = cmd, t_exitWriter = next_fd w + 7, t_errWriter = next_fd w + 5,
                t_pipes = [(next_fd w, next_fd w + 1), (next_fd w + 2, next_fd w + 3),
                           (next_fd w + 4, next_fd w + 5), (next_fd w + 6, next_fd w + 7)]\<rparr>"
    and cmd: "Stdin cmd = next_fd w" "Stdout cmd = next_fd w + 3" "Stderr cmd = next_fd w + 5"
    and fds: "fds = [next_fd w + 1, next_fd w + 2, next_fd w + 4, next_fd w + 6]"
    and op: "open_fds w' = open_fds w \<union> {next_fd w ..< next_fd w + 8}"
    and tr: "trace w' = trace w @ [EvPipe (next_fd w) (next_fd w + 1), EvPipe (next_fd w + 2) (next_fd w + 3),
           EvPipe (next_fd w + 4) (next_fd w + 5), EvPipe (next_fd w + 6) (next_fd w + 7), EvStart cmd]"
    by auto
  have s: "since w w' = [EvPipe (next_fd w) (next_fd w + 1), EvPipe (next_fd w + 2) (next_fd w + 3),
           EvPipe (next_fd w + 4) (next_fd w + 5), EvPipe (next_fd w + 6) (next_fd w + 7), EvStart cmd]"
    by (rule since_append [OF tr])
  show ?thesis
    unfolding sp s fds by (simp add: cmd op)
qed

text \<open>The hypothesis of C7 holds for \<open>/bin/echo hi\<close> run as \<open>nobody\<close>.\<close>

theorem Handle_success_descriptors_witness:
  "fst (Handle fake_daemon fake_env (Inr (spec_of ''/bin/echo'' ''nobody'')) world0) =
     Inr [4, 5, 7, 9] \<and>
   since world0 (fst (snd (Handle fake_daemon fake_env (Inr (spec_of ''/bin/echo'' ''nobody'')) world0))) =
     [EvPipe 3 4, EvPipe 5 6, EvPipe 7 8, EvPipe 9 10,
      EvStart \<lparr>cmd_Path = ''/bin/echo'', cmd_Args = [''/bin/echo'', ''hi''],
               cred_Uid = 65534, cred_Gid = 65534, Stdin = 3, Stdout = 6, Stderr = 8\<rparr>] \<and>
   {4, 5, 7, 9} \<subseteq>
     open_fds (fst (snd (Handle fake_daemon fake_env (Inr (spec_of ''/bin/echo'' ''nobody'')) world0)))"
proof -
  from echo_handled obtain w' t where
    H: "Handle fake_daemon fake_env (Inr (spec_of ''/bin/echo'' ''nobody'')) world0 =
          (Inr [4, 5, 7, 9], w', Some t)"
    and t: "t_cmd t = \<lparr>cmd_Path = ''/bin/echo'', cmd_Args = [''/bin/echo'', ''hi''],
               cred_Uid = 65534, cred_Gid = 65534, Stdin = 3, Stdout = 6, Stderr = 8\<rparr>"
      "t_exitWriter t = 10"
    by fastforce
  from Handle_success_descriptors [OF H] t show ?thesis
    unfolding H by simp
qed

subsection \<open>Unparsable user and group ids\<close>

text \<open>
  Claim C10. When the resolver returns a record whose \<open>Uid\<close> or \<open>Gid\<close> string does not
  scan as a decimal number (\<open>Sscanf\<close> returns an error: no digit after the leading
  white space, a newline before the digits, or a number beyond 32 bits), \<open>Handle\<close>
  does not fail on that account: the result of \<open>Sscanf\<close> is ignored, the field that
  did not scan keeps its zero value, and the Runner's \<open>Start\<close> is called with a
  command whose uid (or gid) is 0. \<open>Handle\<close> succeeds exactly when that \<open>Start\<close>
  does; its only possible error is the Runner's.
\<close>

theorem unparsed_ids_stay_zero:
  assumes "pipe_err e 0 = None" "pipe_err e 1 = None" "pipe_err e 2 = None" "pipe_err e 3 = None"
    and u: "Users cd (User spec) = (Some user, None)"
    and "scanUint32 (Uid user) = None \<or> scanUint32 (Gid user) = None"
  shows "\<exists>cmd w' sp.
     Handle cd e (Inr spec) w =
       (case Start (Runner cd) cmd of
          None \<Rightarrow> Inr [next_fd w + 1, next_fd w + 2, next_fd w + 4, next_fd w + 6]
        | Some err \<Rightarrow> Inl (RunFailed err),
        w', sp) \<and>
     last (trace w') = EvStart cmd \<and>
     (scanUint32 (Uid user) = None \<longrightarrow> cred_Uid cmd = 0) \<and>
     (scanUint32 (Gid user) = None \<longrightarrow> cred_Gid cmd = 0)"
proof -
  obtain ps w1 where cp: "create_pipes e 0 4 w = (Inr ps, w1)"
    using create_pipes_ok [OF assms(1-4)] by blast
  note p = create_pipes_4 [OF cp]
  have ps: "snd (ps ! 0) = next_fd w + 1" "fst (ps ! 1) = next_fd w + 2"
    "fst (ps ! 2) = next_fd w + 4" "fst (ps ! 3) = next_fd w + 6"
    using p by (simp_all add: eval_nat_numeral)
  define cmd where "cmd = \<lparr>cmd_Path = Path spec, cmd_Args = Path spec # Args spec,
      cred_Uid = Sscanf_d (Uid user) 0, cred_Gid = Sscanf_d (Gid user) 0,
      Stdin = fst (ps ! 0), Stdout = snd (ps ! 1), Stderr = snd (ps ! 2)\<rparr>"
  have H: "Handle cd e (Inr spec) w =
       (case Start (Runner cd) cmd of
          Some err \<Rightarrow> (Inl (RunFailed err), w1\<lparr>trace := trace w1 @ [EvStart cmd]\<rparr>, None)
        | None \<Rightarrow>
            (Inr [next_fd w + 1, next_fd w + 2, next_fd w + 4, next_fd w + 6],
             w1\<lparr>trace := trace w1 @ [EvStart cmd]\<rparr>,
             Some \<lparr>t_cmd = cmd, t_exitWriter = snd (ps ! 3), t_errWriter = snd (ps ! 2),
                   t_pipes = ps\<rparr>))"
    unfolding Handle_user_found [OF cp u] Let_def ps cmd_def ..
  have c: "scanUint32 (Uid user) = None \<longrightarrow> cred_Uid cmd = 0"
    "scanUint32 (Gid user) = None \<longrightarrow> cred_Gid cmd = 0"
    by (simp_all add: cmd_def Sscanf_d_def)
  show ?thesis
  proof (cases "Start (Runner cd) cmd")
    case None
    with H c show ?thesis
      by (intro exI [of _ cmd] exI [of _ "w1\<lparr>trace := trace w1 @ [EvStart cmd]\<rparr>"]) simp
  next
    case (Some err)
    with H c show ?thesis
      by (intro exI [of _ cmd] exI [of _ "w1\<lparr>trace := trace w1 @ [EvStart cmd]\<rparr>"]) simp
  qed
qed

text \<open>The user \<open>odd\<close> has the uid \<open>abc\<close> and an empty gid; \<open>/bin/echo\<close> is started
  for it with uid 0 and gid 0.\<close>

theorem unparsed_ids_stay_zero_witness:
  "Users fake_daemon (User (spec_of ''/bin/echo'' ''odd'')) = (Some \<lparr>Uid = ''abc'', Gid = []\<rparr>, None) \<and>
   scanUint32 ''abc'' = None \<and> scanUint32 [] = None \<and>
   fst (Handle fake_daemon fake_env (Inr (spec_of ''/bin/echo'' ''odd'')) world0) = Inr [4, 5, 7, 9] \<and>
   last (trace (fst (snd (Handle fake_daemon fake_env (Inr (spec_of ''/bin/echo'' ''odd'')) world0)))) =
     EvStart \<lparr>cmd_Path = ''/bin/echo'', cmd_Args = [''/bin/echo'', ''hi''],
              cred_Uid = 0, cred_Gid = 0, Stdin = 3, Stdout = 6, Stderr = 8\<rparr>"
proof -
  have u: "Users fake_daemon (User (spec_of ''/bin/echo'' ''odd'')) =
      (Some \<lparr>Uid = ''abc'', Gid = []\<rparr>, None)"
    by (simp add: fake_daemon_def fake_users_def spec_of_def)
  have s: "scanUint32 ''abc'' = None" "scanUint32 [] = None"
    by (rule scan_rejects)+
  have sc: "Sscanf_d ''abc'' 0 = 0" "Sscanf_d [] 0 = 0"
    by (simp_all add: Sscanf_d_def s)
  have p: "pipe_err fake_env 0 = None" "pipe_err fake_env 1 = None"
    "pipe_err fake_env 2 = None" "pipe_err fake_env 3 = None"
    by (simp_all add: fake_env_def)
  define c0 where "c0 = \<lparr>cmd_Path = ''/bin/echo'', cmd_Args = [''/bin/echo'', ''hi''],
              cred_Uid = 0, cred_Gid = 0, Stdin = 3, Stdout = 6, Stderr = 8\<rparr>"
  have "\<exists>w0. Handle fake_daemon fake_env (Inr (spec_of ''/bin/echo'' ''odd'')) world0 =
      (Inr [4, 5, 7, 9], w0,
       Some \<lparr>t_cmd = c0, t_exitWriter = 10, t_errWriter = 8,
             t_pipes = [(3, 4), (5, 6), (7, 8), (9, 10)]\<rparr>)"
    using Handle_success [of fake_env fake_daemon "spec_of ''/bin/echo'' ''odd''"
        "\<lparr>Uid = ''abc'', Gid = []\<rparr>" world0]
    by (simp add: fake_env_def fake_daemon_def fake_users_def fake_runner_def spec_of_def
          world0_def sc c0_def)
  then obtain w0 where
    H0: "Handle fake_daemon fake_env (Inr (spec_of ''/bin/echo'' ''odd'')) world0 =
      (Inr [4, 5, 7, 9], w0,
       Some \<lparr>t_cmd = c0, t_exitWriter = 10, t_errWriter = 8,
             t_pipes = [(3, 4), (5, 6), (7, 8), (9, 10)]\<rparr>)"
    by blast
  from Handle_Inr [OF H0] have tr: "last (trace w0) = EvStart c0"
    by auto
  from unparsed_ids_stay_zero [OF p u, of world0] s
  obtain cmd w' sp where
    H: "Handle fake_daemon fake_env (Inr (spec_of ''/bin/echo'' ''odd'')) world0 =
       (case Start (Runner fake_daemon) cmd of
          None \<Rightarrow> Inr [next_fd world0 + 1, next_fd world0 + 2, next_fd world0 + 4, next_fd world0 + 6]
        | Some err \<Rightarrow> Inl (RunFailed err),
        w', sp)"
    and l: "last (trace w') = EvStart cmd"
    and c: "cred_Uid cmd = 0" "cred_Gid cmd = 0"
    by auto
  from H H0 have w: "w' = w0"
    by simp
  from l tr have cmd: "cmd = c0"
    unfolding w by simp
  have r: "last (trace w0) =
     EvStart \<lparr>cmd_Path = ''/bin/echo'', cmd_Args = [''/bin/echo'', ''hi''],
              cred_Uid = cred_Uid cmd, cred_Gid = cred_Gid cmd, Stdin = 3, Stdout = 6, Stderr = 8\<rparr>"
    using l unfolding w cmd by (simp add: c0_def)
  from u s r c show ?thesis
    unfolding H0 by simp
qed

subsection \<open>The completion task\<close>

text \<open>
  Claim C5. For a command \<open>Handle\<close> has started, the task it spawned releases the
  four descriptors the daemon still holds (the read end of the stdin pipe and the
  write ends of the stdout, stderr and exit-status pipes) exactly once each, on every
  path: whatever \<open>Wait\<close> returns and whether or not the writes succeed, and in
  whatever world the task comes to run, its \<open>Close\<close> calls are these four, once
  each, on four different descriptors, which were open when \<open>Handle\<close> returned and
  are closed when the task ends. None of them is one of the descriptors returned to the
  caller, and \<open>Handle\<close> itself has closed nothing.
\<close>

theorem task_releases_server_ends:
  assumes "Handle cd e dec w = (Inr fds, w', Some t)"
  shows "filter is_Close (since w2 (run_task cd e t w2)) =
       [EvClose (Stdin (t_cmd t)), EvClose (Stdout (t_cmd t)),
        EvClose (Stderr (t_cmd t)), EvClose (t_exitWriter t)] \<and>
     distinct [Stdin (t_cmd t), Stdout (t_cmd t), Stderr (t_cmd t), t_exitWriter t] \<and>
     {Stdin (t_cmd t), Stdout (t_cmd t), Stderr (t_cmd t), t_exitWriter t} \<subseteq> open_fds w' \<and>
     open_fds (run_task cd e t w2) =
       open_fds w2 - {Stdin (t_cmd t), Stdout (t_cmd t), Stderr (t_cmd t), t_exitWriter t} \<and>
     set fds \<inter> {Stdin (t_cmd t), Stdout (t_cmd t), Stderr (t_cmd t), t_exitWriter t} = {} \<and>
     filter is_Close (since w w') = []"
proof -
  note t = Handle_task [OF assms]
  have 0: "filter is_Close (since w w') = []"
    using Handle_never_closes [of w cd e dec] by (simp add: assms)
  have 1: "filter is_Close (since w2 (run_task cd e t w2)) =
       [EvClose (Stdin (t_cmd t)), EvClose (Stdout (t_cmd t)),
        EvClose (Stderr (t_cmd t)), EvClose (t_exitWriter t)]"
    unfolding run_task_closes by (simp add: t)
  have 2: "distinct [Stdin (t_cmd t), Stdout (t_cmd t), Stderr (t_cmd t), t_exitWriter t]"
    by (simp add: t)
  have 3: "{Stdin (t_cmd t), Stdout (t_cmd t), Stderr (t_cmd t), t_exitWriter t} \<subseteq> open_fds w'"
    by (simp add: t)
  have 4: "open_fds (run_task cd e t w2) =
       open_fds w2 - {Stdin (t_cmd t), Stdout (t_cmd t), Stderr (t_cmd t), t_exitWriter t}"
    unfolding run_task_open by (simp add: t)
  have 5: "set fds \<inter> {Stdin (t_cmd t), Stdout (t_cmd t), Stderr (t_cmd t), t_exitWriter t} = {}"
    by (simp add: t)
  from 0 1 2 3 4 5 show ?thesis by blast
qed

text \<open>The hypothesis of C5 holds on the path where both \<open>Wait\<close> and the write of the
  exit status fail.\<close>

theorem task_releases_server_ends_witness:
  "fst (Handle fake_daemon_wait_fails fake_env_exit_write_fails
          (Inr (spec_of ''/bin/echo'' ''nobody'')) world0) = Inr [4, 5, 7, 9] \<and>
   filter is_Close
     (since (fst (snd (Handle fake_daemon_wait_fails fake_env_exit_write_fails
                         (Inr (spec_of ''/bin/echo'' ''nobody'')) world0)))
        (run_spawned fake_daemon_wait_fails fake_env_exit_write_fails
           (Handle fake_daemon_wait_fails fake_env_exit_write_fails
              (Inr (spec_of ''/bin/echo'' ''nobody'')) world0))) =
     [EvClose 3, EvClose 6, EvClose 8, EvClose 10] \<and>
   open_fds
     (run_spawned fake_daemon_wait_fails fake_env_exit_write_fails
        (Handle fake_daemon_wait_fails fake_env_exit_write_fails
           (Inr (spec_of ''/bin/echo'' ''nobody'')) world0)) = {0, 1, 2, 4, 5, 7, 9}"
proof -
  define t where "t = \<lparr>t_cmd = \<lparr>cmd_Path = ''/bin/echo'', cmd_Args = [''/bin/echo'', ''hi''],
                cred_Uid = 65534, cred_Gid = 65534, Stdin = 3, Stdout = 6, Stderr = 8\<rparr>,
             t_exitWriter = 10, t_errWriter = 8,
             t_pipes = [(3, 4), (5, 6), (7, 8), (9, 10)]\<rparr>"
  have "\<exists>w'. Handle fake_daemon_wait_fails fake_env_exit_write_fails
          (Inr (spec_of ''/bin/echo'' ''nobody'')) world0 = (Inr [4, 5, 7, 9], w', Some t)"
    unfolding t_def
    by (rule nobody_handled)
       (simp_all add: fake_env_exit_write_fails_def fake_daemon_wait_fails_def
          fake_runner_wait_fails_def)
  then obtain w' where
    H: "Handle fake_daemon_wait_fails fake_env_exit_write_fails
          (Inr (spec_of ''/bin/echo'' ''nobody'')) world0 = (Inr [4, 5, 7, 9], w', Some t)"
    by blast
  have t: "Stdin (t_cmd t) = 3" "Stdout (t_cmd t) = 6" "Stderr (t_cmd t) = 8" "t_exitWriter t = 10"
    by (simp_all add: t_def)
  have o: "open_fds w' = {0, 1, 2} \<union> {3, 4, 5, 6, 7, 8, 9, 10}"
    unfolding Handle_task(8) [OF H] by (simp add: world0_def atLeastLessThan_upt)
  have s: "{0, 1, 2} \<union> {3, 4, 5, 6, 7, 8, 9, 10} - {3, 6, 8, 10::nat} = {0, 1, 2, 4, 5, 7, 9}"
    by auto
  from task_releases_server_ends [OF H, of w'] have
    c: "filter is_Close (since w' (run_task fake_daemon_wait_fails fake_env_exit_write_fails t w')) =
          [EvClose 3, EvClose 6, EvClose 8, EvClose 10]"
    and op: "open_fds (run_task fake_daemon_wait_fails fake_env_exit_write_fails t w') =
          open_fds w' - {3, 6, 8, 10}"
    by (simp_all add: t)
  have op': "open_fds (run_task fake_daemon_wait_fails fake_env_exit_write_fails t w') =
          {0, 1, 2, 4, 5, 7, 9}"
    unfolding op o by (rule s)
  show ?thesis
    unfolding H run_spawned_def by (simp add: c op')
qed

text \<open>
  Claim C6. For a started command whose \<open>Wait\<close> returns an error, the task first
  writes a diagnostic to the write end of the stderr pipe (the descriptor that is the
  command's stderr), then writes the byte \<open>UnknownExitStatus\<close> to the exit-status
  pipe, and writes nothing else there. The diagnostic is not empty: it is the text
  \<open>container_daemon: Wait failed: \<close> followed by the error between brackets. The
  results of the writes are not consulted for what follows the exit byte's: for every
  outcome of the writes, and in whatever world the task runs, the four \<open>Close\<close>
  calls follow and the four descriptors are closed when the task ends.
\<close>

theorem wait_failure_reported:
  assumes "Handle cd e dec w = (Inr fds, w', Some t)"
    and "snd (Wait (Runner cd) (t_cmd t)) = Some err"
  shows "\<exists>rest.
     since w2 (run_task cd e t w2) =
       EvWait (t_cmd t) #
       EvWrite (Stderr (t_cmd t)) (bytes_of (''container_daemon: Wait failed: ['' @ err @ '']'')) #
       EvWrite (t_exitWriter t) [UnknownExitStatus e] # rest \<and>
     bytes_of (''container_daemon: Wait failed: ['' @ err @ '']'') \<noteq> [] \<and>
     writes_to (t_exitWriter t) rest = [] \<and>
     filter is_Close rest =
       [EvClose (Stdin (t_cmd t)), EvClose (Stdout (t_cmd t)),
        EvClose (Stderr (t_cmd t)), EvClose (t_exitWriter t)] \<and>
     open_fds (run_task cd e t w2) \<inter>
       {Stdin (t_cmd t), Stdout (t_cmd t), Stderr (t_cmd t), t_exitWriter t} = {}"
proof -
  note t = Handle_task [OF assms(1)]
  define rest where "rest =
     (case (if t_exitWriter t \<in> open_fds w2
            then map_option snd (write_res e (t_exitWriter t) [exit_byte e (Runner cd) (t_cmd t)])
            else Some ''file already closed'') of
        Some err \<Rightarrow> [EvWrite (t_errWriter t)
                       (bytes_of (Sprintf ''container_daemon: failed to Write exit status: '' [err]))]
      | None \<Rightarrow> []) @
     map EvClose [fst (t_pipes t ! 0), snd (t_pipes t ! 1), snd (t_pipes t ! 2), snd (t_pipes t ! 3)]"
  have 1: "since w2 (run_task cd e t w2) =
       EvWait (t_cmd t) #
       EvWrite (Stderr (t_cmd t)) (bytes_of (''container_daemon: Wait failed: ['' @ err @ '']'')) #
       EvWrite (t_exitWriter t) [UnknownExitStatus e] # rest"
    unfolding since_append [OF run_task_trace] rest_def
    by (simp add: assms(2) exit_byte_Wait_failed [OF assms(2)] Sprintf_def t)
  have 2: "bytes_of (''container_daemon: Wait failed: ['' @ err @ '']'') \<noteq> []"
    by (simp add: bytes_of_def)
  have 3: "writes_to (t_exitWriter t) rest = []"
    unfolding rest_def by (simp add: t split: option.splits)
  have 4: "filter is_Close rest =
       [EvClose (Stdin (t_cmd t)), EvClose (Stdout (t_cmd t)),
        EvClose (Stderr (t_cmd t)), EvClose (t_exitWriter t)]"
    unfolding rest_def by (simp add: t split: option.splits)
  have 5: "open_fds (run_task cd e t w2) \<inter>
       {Stdin (t_cmd t), Stdout (t_cmd t), Stderr (t_cmd t), t_exitWriter t} = {}"
    unfolding run_task_open by (auto simp: t)
  from 1 2 3 4 5 show ?thesis by blast
qed

text \<open>The hypotheses of C6 hold for a runner whose \<open>Wait\<close> fails with
  \<open>no child processes\<close>; the constant is 255 in the test environment.\<close>

theorem wait_failure_reported_witness:
  "fst (Handle fake_daemon_wait_fails fake_env (Inr (spec_of ''/bin/echo'' ''nobody'')) world0) =
     Inr [4, 5, 7, 9] \<and>
   Wait (Runner fake_daemon_wait_fails)
     \<lparr>cmd_Path = ''/bin/echo'', cmd_Args = [''/bin/echo'', ''hi''],
      cred_Uid = 65534, cred_Gid = 65534, Stdin = 3, Stdout = 6, Stderr = 8\<rparr> =
     (0, Some ''no child processes'') \<and>
   take 3 (since
     (fst (snd (Handle fake_daemon_wait_fails fake_env (Inr (spec_of ''/bin/echo'' ''nobody'')) world0)))
     (run_spawned fake_daemon_wait_fails fake_env
        (Handle fake_daemon_wait_fails fake_env (Inr (spec_of ''/bin/echo'' ''nobody'')) world0))) =
     [EvWait \<lparr>cmd_Path = ''/bin/echo'', cmd_Args = [''/bin/echo'', ''hi''],
              cred_Uid = 65534, cred_Gid = 65534, Stdin = 3, Stdout = 6, Stderr = 8\<rparr>,
      EvWrite 8 (bytes_of ''container_daemon: Wait failed: [no child processes]''),
      EvWrite 10 [255]]"
proof -
  define t where "t = \<lparr>t_cmd = \<lparr>cmd_Path = ''/bin/echo'', cmd_Args = [''/bin/echo'', ''hi''],
                cred_Uid = 65534, cred_Gid = 65534, Stdin = 3, Stdout = 6, Stderr = 8\<rparr>,
             t_exitWriter = 10, t_errWriter = 8,
             t_pipes = [(3, 4), (5, 6), (7, 8), (9, 10)]\<rparr>"
  have "\<exists>w'. Handle fake_daemon_wait_fails fake_env
          (Inr (spec_of ''/bin/echo'' ''nobody'')) world0 = (Inr [4, 5, 7, 9], w', Some t)"
    unfolding t_def
    by (rule nobody_handled)
       (simp_all add: fake_env_def fake_daemon_wait_fails_def fake_runner_wait_fails_def)
  then obtain w' where
    H: "Handle fake_daemon_wait_fails fake_env
          (Inr (spec_of ''/bin/echo'' ''nobody'')) world0 = (Inr [4, 5, 7, 9], w', Some t)"
    by blast
  have wt: "Wait (Runner fake_daemon_wait_fails) c = (0, Some ''no child processes'')" for c
    by (simp add: fake_daemon_wait_fails_def fake_runner_wait_fails_def)
  have wf: "snd (Wait (Runner fake_daemon_wait_fails) (t_cmd t)) = Some ''no child processes''"
    by (simp add: wt)
  from wait_failure_reported [OF H wf, of w'] obtain rest where
    "since w' (run_task fake_daemon_wait_fails fake_env t w') =
       EvWait (t_cmd t) #
       EvWrite (Stderr (t_cmd t))
         (bytes_of (''container_daemon: Wait failed: ['' @ ''no child processes'' @ '']'')) #
       EvWrite (t_exitWriter t) [UnknownExitStatus fake_env] # rest"
    by blast
  then show ?thesis
    unfolding H run_spawned_def by (simp add: t_def wt fake_env_def)
qed




end
